theory Spec2Isabelle
  imports Main "HOL-Library.AList"
begin

section \<open>Chat scopes and event filtering of \<open>telethon/events/common.py\<close>\<close>

text \<open>
  The module \<open>events/common.py\<close> holds the helper \<open>_into_id_set\<close>, the class
  \<open>EventBuilder\<close> (\<open>resolve\<close>, \<open>filter\<close>), the class \<open>EventCommon\<close>
  (\<open>_set_client\<close>, \<open>to_dict\<close>) and the decorator \<open>name_inner_event\<close>.
  Names that start with an underscore in Python lose it here (\<open>into_id_set\<close>,
  \<open>set_client\<close>); \<open>filter\<close> is \<open>filter_event\<close>.
\<close>

subsection \<open>Exceptions\<close>

text \<open>
  Every \<open>raise\<close> is a value: a function that can raise returns \<open>error + 'r\<close> with
  \<open>Inl\<close> the exception. \<open>OtherError\<close> stands for what the network layer raises
  (an RPC error, a lost connection).
\<close>

datatype error = TypeError | ValueError | IndexError | AttributeError | OtherError string

subsection \<open>TL objects\<close>

text \<open>
  \<open>peer\<close> are the TL objects whose \<open>SUBCLASS_OF_ID\<close> is \<open>0x2d45687\<close> (\<open>crc32(b'Peer')\<close>),
  the three the source constructs. \<open>input_peer\<close> are the input forms; the
  \<open>access_hash\<close> attribute exists on \<open>InputPeerUser\<close> and \<open>InputPeerChannel\<close> only and
  holds a Python value that is an integer or \<open>None\<close>.
\<close>

datatype peer = PeerUser int | PeerChat int | PeerChannel int

datatype input_peer =
    InputPeerEmpty
  | InputPeerSelf
  | InputPeerChat int
  | InputPeerUser int "int option"
  | InputPeerChannel int "int option"

text \<open>What the source hands to \<open>utils.get_peer_id\<close>: a peer, an input peer, or \<open>None\<close>
  (the \<open>_chat_peer\<close> of an event built without one).\<close>

datatype peer_like = NoPeer | APeer peer | AnInputPeer input_peer

text \<open>Python truthiness of an integer-or-\<open>None\<close> value: \<open>None\<close> and \<open>0\<close> are falsy.\<close>

definition truthy :: "int option \<Rightarrow> bool" where
  "truthy v = (case v of None \<Rightarrow> False | Some n \<Rightarrow> n \<noteq> 0)"

subsection \<open>Collaborators outside the module\<close>

text \<open>
  The functions of \<open>telethon.utils\<close> the module calls are parameters of the model:
  \<open>get_peer_id\<close> (the canonical identifier of a peer-shaped value) and
  \<open>get_input_peer\<close> (the input form of an entity). \<open>is_list_like\<close> is the
  distinction between the constructors \<open>Single\<close> and \<open>ListLike\<close>/\<open>IdSet\<close> below.
\<close>

record 'e utils =
  get_peer_id :: "peer_like \<Rightarrow> error + int"
  get_input_peer :: "'e \<Rightarrow> error + input_peer"

text \<open>
  Every call to the client is logged; the log is the observable effect on the outside world.
  The client's answer may depend on the calls made before it (the log so far), so a client
  that fails once and answers later is among the clients modelled.
\<close>

datatype 'a call =
    GetInputEntity 'a
  | GetMe
  | GetPeerId string
  | SessionGetInputEntity "peer option"

record 'a client =
  get_input_entity :: "'a call list \<Rightarrow> 'a \<Rightarrow> error + input_peer"
  get_me :: "'a call list \<Rightarrow> error + input_peer"
  client_get_peer_id :: "'a call list \<Rightarrow> string \<Rightarrow> error + int"
  session_get_input_entity :: "'a call list \<Rightarrow> peer option \<Rightarrow> error + input_peer"

subsection \<open>Chat specifications\<close>

text \<open>
  One specifier is an integer, a \<open>Peer\<close> object, or anything else (a username, an input
  peer, an entity): \<open>'a\<close>. The attribute \<open>chats\<close> of a builder is \<open>None\<close>, one specifier,
  a list-like of specifiers, or, after \<open>resolve\<close>, a set of integers.
\<close>

datatype 'a chat_spec = IntSpec int | PeerSpec peer | OtherSpec 'a

datatype 'a chats_value = Single "'a chat_spec" | ListLike "'a chat_spec list" | IdSet "int set"

subsection \<open>\<open>_into_id_set\<close>\<close>

text \<open>
  The body of the \<open>for\<close> loop (lines 19 to 35): one specifier is added to \<open>result\<close>.
  The set display of lines 23 to 27 evaluates its three elements from left to right.
  An \<open>await\<close> on the client appends the call to the log, also when the call raises.
\<close>

definition add_chat ::
  "'e utils \<Rightarrow> 'a client \<Rightarrow> 'a call list \<Rightarrow> int set \<Rightarrow> 'a chat_spec
    \<Rightarrow> 'a call list \<times> (error + int set)" where
  "add_chat u cl t result chat =
    (case chat of
       IntSpec n \<Rightarrow>
         if n < 0 then (t, Inr (insert n result))
         else
           (case get_peer_id u (APeer (PeerUser n)) of
              Inl e \<Rightarrow> (t, Inl e)
            | Inr a \<Rightarrow>
               (case get_peer_id u (APeer (PeerChat n)) of
                  Inl e \<Rightarrow> (t, Inl e)
                | Inr b \<Rightarrow>
                   (case get_peer_id u (APeer (PeerChannel n)) of
                      Inl e \<Rightarrow> (t, Inl e)
                    | Inr c \<Rightarrow> (t, Inr (result \<union> {a, b, c})))))
     | PeerSpec p \<Rightarrow>
         (case get_peer_id u (APeer p) of
            Inl e \<Rightarrow> (t, Inl e)
          | Inr i \<Rightarrow> (t, Inr (insert i result)))
     | OtherSpec x \<Rightarrow>
         (case get_input_entity cl t x of
            Inl e \<Rightarrow> (t @ [GetInputEntity x], Inl e)
          | Inr ip \<Rightarrow>
             if ip = InputPeerSelf then
               (case get_me cl (t @ [GetInputEntity x]) of
                  Inl e \<Rightarrow> (t @ [GetInputEntity x, GetMe], Inl e)
                | Inr me \<Rightarrow>
                   (case get_peer_id u (AnInputPeer me) of
                      Inl e \<Rightarrow> (t @ [GetInputEntity x, GetMe], Inl e)
                    | Inr i \<Rightarrow> (t @ [GetInputEntity x, GetMe], Inr (insert i result))))
             else
               (case get_peer_id u (AnInputPeer ip) of
                  Inl e \<Rightarrow> (t @ [GetInputEntity x], Inl e)
                | Inr i \<Rightarrow> (t @ [GetInputEntity x], Inr (insert i result)))))"

text \<open>The loop: the first exception ends it, and the rest of the specifiers is not looked at.\<close>

fun into_loop ::
  "'e utils \<Rightarrow> 'a client \<Rightarrow> 'a chat_spec list \<Rightarrow> 'a call list \<Rightarrow> int set
    \<Rightarrow> 'a call list \<times> (error + int set)" where
  "into_loop u cl [] t result = (t, Inr result)"
| "into_loop u cl (chat # rest) t result =
    (case add_chat u cl t result chat of
       (t', Inl e) \<Rightarrow> (t', Inl e)
     | (t', Inr result') \<Rightarrow> into_loop u cl rest t' result')"

text \<open>
  Lines 14 and 15 and the order of iteration: one specifier becomes a one-element tuple, a
  list-like is iterated as it is. A set of integers has no order of its own in Python; its
  elements are integers, for which the loop body calls no client, so the order only picks
  which exception of \<open>get_peer_id\<close> comes first. The model iterates it in ascending order.
\<close>

definition to_iterable :: "'a chats_value \<Rightarrow> 'a chat_spec list" where
  "to_iterable cs =
    (case cs of
       Single c \<Rightarrow> [c]
     | ListLike xs \<Rightarrow> xs
     | IdSet s \<Rightarrow> map IntSpec (sorted_list_of_set s))"

definition into_id_set ::
  "'e utils \<Rightarrow> 'a client \<Rightarrow> 'a call list \<Rightarrow> 'a chats_value option
    \<Rightarrow> 'a call list \<times> (error + int set option)" where
  "into_id_set u cl t chats =
    (case chats of
       None \<Rightarrow> (t, Inr None)
     | Some cs \<Rightarrow>
        (case into_loop u cl (to_iterable cs) t {} of
           (t', Inl e) \<Rightarrow> (t', Inl e)
         | (t', Inr result) \<Rightarrow> (t', Inr (Some result))))"

subsection \<open>\<open>EventBuilder\<close>\<close>

text \<open>
  \<open>world\<close> is the state shared by all builders: the log of client calls and the class
  attribute \<open>EventBuilder.self_id\<close>. A builder holds \<open>chats\<close>, \<open>blacklist_chats\<close> and the
  instance attribute \<open>_self_id\<close> that \<open>__init__\<close> sets to \<open>None\<close>.
\<close>

record 'a world =
  trace :: "'a call list"
  self_id :: "int option"

record 'a event_builder =
  chats :: "'a chats_value option"
  blacklist_chats :: bool
  builder_self_id :: "int option"

definition init_builder :: "'a chats_value option \<Rightarrow> bool \<Rightarrow> 'a event_builder" where
  "init_builder cs bl = \<lparr>chats = cs, blacklist_chats = bl, builder_self_id = None\<rparr>"

text \<open>
  \<open>resolve\<close> (lines 67 to 71). The result is the world and the builder after the call and
  the exception that left it, if one did. The assignment to \<open>self.chats\<close> happens only when
  \<open>_into_id_set\<close> returned; the guard of line 70 is Python truthiness.
\<close>

definition resolve ::
  "'e utils \<Rightarrow> 'a client \<Rightarrow> 'a world \<Rightarrow> 'a event_builder
    \<Rightarrow> 'a world \<times> 'a event_builder \<times> error option" where
  "resolve u cl w b =
    (case into_id_set u cl (trace w) (chats b) of
       (t1, Inl e) \<Rightarrow> (w\<lparr>trace := t1\<rparr>, b, Some e)
     | (t1, Inr r) \<Rightarrow>
        (let b' = b\<lparr>chats := map_option IdSet r\<rparr> in
         if \<not> truthy (self_id w) then
           (case client_get_peer_id cl t1 ''me'' of
              Inl e \<Rightarrow> (w\<lparr>trace := t1 @ [GetPeerId ''me'']\<rparr>, b', Some e)
            | Inr i \<Rightarrow> (w\<lparr>trace := t1 @ [GetPeerId ''me''], self_id := Some i\<rparr>, b', None))
         else (w\<lparr>trace := t1\<rparr>, b', None)))"

subsection \<open>\<open>EventCommon\<close>\<close>

text \<open>
  The values an attribute of an event holds, as far as \<open>to_dict\<close> has to carry them:
  \<open>'x\<close> is any other Python object (the original update, what a subclass stores).
\<close>

datatype ('a, 'e, 'x) pyval =
    PyNone
  | PyBool bool
  | PyInt int
  | PyStr string
  | PyPeer peer
  | PyInputPeer input_peer
  | PyEntity 'e
  | PyEntities "int \<rightharpoonup> 'e"
  | PyClient "'a client"
  | PyObj 'x

text \<open>
  The attributes \<open>__init__\<close> sets (lines 101 to 108), each under its Python name with the
  leading underscore dropped and \<open>ev_\<close> put in front. Entities are TL objects and truthy:
  \<open>ev_chat = None\<close> is the only falsy \<open>_chat\<close>. \<open>ev_extra\<close> are the attributes a subclass
  adds to the instance, in the order of \<open>__dict__\<close>; \<open>cls_event_name\<close> is the class attribute
  \<open>_event_name\<close> the instance's class has.
\<close>

record ('a, 'e, 'x) event_common =
  ev_entities :: "int \<rightharpoonup> 'e"
  ev_client :: "'a client option"
  ev_chat_peer :: "peer option"
  ev_message_id :: "int option"
  ev_input_chat :: "input_peer option"
  ev_chat :: "'e option"
  ev_broadcast :: bool
  original_update :: "'x option"
  ev_extra :: "(string \<times> ('a, 'e, 'x) pyval) list"
  cls_event_name :: string

definition init_event ::
  "peer option \<Rightarrow> int option \<Rightarrow> bool \<Rightarrow> ('a, 'e, 'x) event_common" where
  "init_event chat_peer msg_id broadcast =
    \<lparr>ev_entities = Map.empty, ev_client = None, ev_chat_peer = chat_peer,
     ev_message_id = msg_id, ev_input_chat = None, ev_chat = None,
     ev_broadcast = broadcast, original_update = None, ev_extra = [],
     cls_event_name = ''Event''\<rparr>"

text \<open>The argument \<open>filter\<close> gives to \<open>utils.get_peer_id\<close>: \<open>event._chat_peer\<close>, \<open>None\<close> included.\<close>

definition peer_arg :: "peer option \<Rightarrow> peer_like" where
  "peer_arg p = (case p of None \<Rightarrow> NoPeer | Some q \<Rightarrow> APeer q)"

text \<open>
  Python's \<open>x in chats\<close> for an integer \<open>x\<close> (line 79): membership in a set of integers;
  in a list-like, equality with one of its elements, and an integer equals no object that
  is not an integer; one specifier alone (an integer, a TL object, a string) is no container
  of integers, and \<open>in\<close> raises \<open>TypeError\<close>.
\<close>

definition contains :: "'a chats_value \<Rightarrow> int \<Rightarrow> error + bool" where
  "contains cs x =
    (case cs of
       Single c \<Rightarrow> Inl TypeError
     | ListLike xs \<Rightarrow> Inr (IntSpec x \<in> set xs)
     | IdSet s \<Rightarrow> Inr (x \<in> s))"

text \<open>
  \<open>filter\<close> (lines 73 to 84). The result is what the call returns or raises, then the builder
  and the event as the call leaves them: the body has no assignment.
\<close>

definition filter_event ::
  "'e utils \<Rightarrow> 'a event_builder \<Rightarrow> ('a, 'e, 'x) event_common
    \<Rightarrow> (error + ('a, 'e, 'x) event_common option) \<times> 'a event_builder \<times> ('a, 'e, 'x) event_common"
  where
  "filter_event u b ev =
    (case chats b of
       None \<Rightarrow> (Inr (Some ev), b, ev)
     | Some cs \<Rightarrow>
        (case get_peer_id u (peer_arg (ev_chat_peer ev)) of
           Inl e \<Rightarrow> (Inl e, b, ev)
         | Inr pid \<Rightarrow>
            (case contains cs pid of
               Inl e \<Rightarrow> (Inl e, b, ev)
             | Inr inside \<Rightarrow>
                if inside = blacklist_chats b then (Inr None, b, ev)
                else (Inr (Some ev), b, ev))))"

text \<open>
  Modelled from the spec: the property \<open>chat_id\<close> is inherited from \<open>ChatGetter\<close>, which is
  not in this module. The spec has binding look the entity up by the chat reference's
  canonical identifier; an event without a chat reference has no identifier (\<open>None\<close>).
\<close>

definition chat_id :: "'e utils \<Rightarrow> ('a, 'e, 'x) event_common \<Rightarrow> error + int option" where
  "chat_id u ev =
    (case ev_chat_peer ev of
       None \<Rightarrow> Inr None
     | Some p \<Rightarrow>
        (case get_peer_id u (APeer p) of
           Inl e \<Rightarrow> Inl e
         | Inr i \<Rightarrow> Inr (Some i)))"

text \<open>
  The truth value of \<open>getattr(input_chat, 'access_hash', True)\<close> (line 120): the attribute's
  own truthiness where the object has one, \<open>True\<close> where it has none.
\<close>

fun getattr_access_hash :: "input_peer \<Rightarrow> bool" where
  "getattr_access_hash (InputPeerUser i h) = truthy h"
| "getattr_access_hash (InputPeerChannel i h) = truthy h"
| "getattr_access_hash ip = True"

text \<open>
  \<open>_set_client\<close> (lines 110 to 127): the log and the event after the call, and the exception
  that left it, if one did. \<open>dict.get\<close> of a key that is \<open>None\<close> finds nothing: the keys of
  the snapshot are integers. Only \<open>ValueError\<close> is caught at line 126.
\<close>

definition set_client ::
  "'e utils \<Rightarrow> 'a call list \<Rightarrow> ('a, 'e, 'x) event_common \<Rightarrow> 'a client
    \<Rightarrow> 'a call list \<times> ('a, 'e, 'x) event_common \<times> error option" where
  "set_client u t ev cl =
    (let ev1 = ev\<lparr>ev_client := Some cl\<rparr> in
     case chat_id u ev1 of
       Inl e \<Rightarrow> (t, ev1, Some e)
     | Inr k \<Rightarrow>
        (let ev2 = ev1\<lparr>ev_chat := (case k of None \<Rightarrow> None | Some i \<Rightarrow> ev_entities ev1 i)\<rparr> in
         case ev_chat ev2 of
           None \<Rightarrow> (t, ev2, None)
         | Some ent \<Rightarrow>
            (case get_input_peer u ent of
               Inl e \<Rightarrow> (t, ev2, Some e)
             | Inr ip \<Rightarrow>
                (let ev3 = ev2\<lparr>ev_input_chat := Some ip\<rparr> in
                 if \<not> getattr_access_hash ip then
                   (case session_get_input_entity cl t (ev_chat_peer ev3) of
                      Inl e \<Rightarrow>
                        if e = ValueError
                        then (t @ [SessionGetInputEntity (ev_chat_peer ev3)],
                              ev3\<lparr>ev_input_chat := None\<rparr>, None)
                        else (t @ [SessionGetInputEntity (ev_chat_peer ev3)], ev3, Some e)
                    | Inr ip' \<Rightarrow>
                        (t @ [SessionGetInputEntity (ev_chat_peer ev3)],
                         ev3\<lparr>ev_input_chat := Some ip'\<rparr>, None))
                 else (t, ev3, None)))))"

text \<open>
  The instance's \<open>__dict__\<close>: the eight attributes of \<open>__init__\<close> under their Python names,
  then what the subclass added.
\<close>

definition opt_val :: "('b \<Rightarrow> ('a, 'e, 'x) pyval) \<Rightarrow> 'b option \<Rightarrow> ('a, 'e, 'x) pyval" where
  "opt_val f v = (case v of None \<Rightarrow> PyNone | Some y \<Rightarrow> f y)"

definition vars_of :: "('a, 'e, 'x) event_common \<Rightarrow> (string \<times> ('a, 'e, 'x) pyval) list" where
  "vars_of ev =
    [(''_entities'', PyEntities (ev_entities ev)),
     (''_client'', opt_val PyClient (ev_client ev)),
     (''_chat_peer'', opt_val PyPeer (ev_chat_peer ev)),
     (''_message_id'', opt_val PyInt (ev_message_id ev)),
     (''_input_chat'', opt_val PyInputPeer (ev_input_chat ev)),
     (''_chat'', opt_val PyEntity (ev_chat ev)),
     (''_broadcast'', PyBool (ev_broadcast ev)),
     (''original_update'', opt_val PyObj (original_update ev))] @ ev_extra ev"

text \<open>\<open>self._event_name\<close>: the instance's own attribute of that name if it has one, else
  the class attribute.\<close>

definition event_name :: "('a, 'e, 'x) event_common \<Rightarrow> ('a, 'e, 'x) pyval" where
  "event_name ev =
    (case map_of (vars_of ev) ''_event_name'' of
       Some v \<Rightarrow> v
     | None \<Rightarrow> PyStr (cls_event_name ev))"

text \<open>
  \<open>to_dict\<close> (lines 142 to 145). \<open>k[0]\<close> of an empty attribute name raises \<open>IndexError\<close>;
  the assignment \<open>d['_'] = ...\<close> replaces the entry of that key or appends a new one.
\<close>

definition to_dict ::
  "('a, 'e, 'x) event_common \<Rightarrow> error + (string \<times> ('a, 'e, 'x) pyval) list" where
  "to_dict ev =
    (if [] \<in> fst ` set (vars_of ev) then Inl IndexError
     else Inr (AList.update ''_'' (event_name ev)
                 (filter (\<lambda>(k, v). hd k \<noteq> CHR ''_'') (vars_of ev))))"

subsection \<open>\<open>name_inner_event\<close>\<close>

text \<open>
  Classes are objects that are shared and mutated, so they live in a store: a reference is a
  number, and the store gives each class its \<open>__name__\<close>, what \<open>str(cls)\<close> prints, the
  classes after it in its method resolution order, and its own attributes. The value of an
  attribute is a class or a value that takes no attributes (a string, \<open>None\<close>).
\<close>

datatype pyattr = ClassRef nat | StrVal string | NoneVal

record pyclass =
  cls_name :: string
  cls_repr :: string
  cls_bases :: "nat list"
  cls_dict :: "string \<rightharpoonup> pyattr"

fun lookup_mro :: "(nat \<Rightarrow> pyclass) \<Rightarrow> nat list \<Rightarrow> string \<Rightarrow> pyattr option" where
  "lookup_mro h [] a = None"
| "lookup_mro h (r # rs) a =
    (case cls_dict (h r) a of
       Some v \<Rightarrow> Some v
     | None \<Rightarrow> lookup_mro h rs a)"

text \<open>\<open>getattr(cls, a)\<close>: the class's own attribute, else the first one along its bases.\<close>

definition class_getattr :: "(nat \<Rightarrow> pyclass) \<Rightarrow> nat \<Rightarrow> string \<Rightarrow> pyattr option" where
  "class_getattr h c a = lookup_mro h (c # cls_bases (h c)) a"

text \<open>
  \<open>name_inner_event\<close> (lines 148 to 154): the store and the list of warnings after the call,
  and the class returned. Assigning an attribute to a string or to \<open>None\<close> raises
  \<open>AttributeError\<close>.
\<close>

definition name_inner_event ::
  "(nat \<Rightarrow> pyclass) \<Rightarrow> string list \<Rightarrow> nat
    \<Rightarrow> (nat \<Rightarrow> pyclass) \<times> string list \<times> (error + nat)" where
  "name_inner_event h warns c =
    (case class_getattr h c ''Event'' of
       Some v \<Rightarrow>
        (case v of
           ClassRef r \<Rightarrow>
             (h(r := (h r)\<lparr>cls_dict :=
                  (cls_dict (h r))(''_event_name'' \<mapsto> StrVal (cls_name (h c) @ ''.Event''))\<rparr>),
              warns, Inr c)
         | StrVal s \<Rightarrow> (h, warns, Inl AttributeError)
         | NoneVal \<Rightarrow> (h, warns, Inl AttributeError))
     | None \<Rightarrow>
        (h, warns @ [''Class '' @ cls_repr (h c) @ '' does not have a inner Event''], Inr c))"

subsection \<open>Several builders, one after the other\<close>


text \<open>How often the identity was asked for: the calls \<open>client.get_peer_id('me')\<close> in a log.\<close>

definition identity_lookups :: "'a call list \<Rightarrow> nat" where
  "identity_lookups t = count_list t (GetPeerId ''me'')"

subsection \<open>Builders that resolve concurrently\<close>








subsection \<open>Sample collaborators\<close>

text \<open>For evaluating the functions at concrete inputs.\<close>

text \<open>
  Modelled from the spec: \<open>utils.get_peer_id\<close> is in \<open>telethon/utils.py\<close>, not in this
  module. The spec's canonical identifier is one integer that encodes a peer's numeric id
  and its kind by a sign and offset convention, signed to tell the kinds apart, and line 21
  has the marked identifiers negative: a user \<open>n\<close> is \<open>n\<close>, a basic group \<open>-n\<close>, a channel
  \<open>-(10^12 + n)\<close>. \<open>InputPeerSelf\<close>, \<open>InputPeerEmpty\<close> and \<open>None\<close> have no identifier.
\<close>

fun sample_get_peer_id :: "peer_like \<Rightarrow> error + int" where
  "sample_get_peer_id (APeer (PeerUser n)) = Inr n"
| "sample_get_peer_id (APeer (PeerChat n)) = Inr (- n)"
| "sample_get_peer_id (APeer (PeerChannel n)) = Inr (- (1000000000000 + n))"
| "sample_get_peer_id (AnInputPeer (InputPeerUser n h)) = Inr n"
| "sample_get_peer_id (AnInputPeer (InputPeerChat n)) = Inr (- n)"
| "sample_get_peer_id (AnInputPeer (InputPeerChannel n h)) = Inr (- (1000000000000 + n))"
| "sample_get_peer_id p = Inl TypeError"

text \<open>
  Entities are numbers here: entity \<open>1\<close> is a user with an access hash, \<open>2\<close> a channel
  without one, \<open>3\<close> the account itself, \<open>4\<close> a basic group.
\<close>

definition sample_get_input_peer :: "nat \<Rightarrow> error + input_peer" where
  "sample_get_input_peer ent =
    (if ent = 1 then Inr (InputPeerUser 123 (Some 777))
     else if ent = 2 then Inr (InputPeerChannel 123 (Some 0))
     else if ent = 3 then Inr InputPeerSelf
     else if ent = 4 then Inr (InputPeerChat 123)
     else Inl TypeError)"

definition sample_utils :: "nat utils" where
  "sample_utils = \<lparr>get_peer_id = sample_get_peer_id, get_input_peer = sample_get_input_peer\<rparr>"

text \<open>
  A client that knows the user name \<open>durov\<close> and \<open>me\<close>, whose account is the user \<open>42\<close>,
  and whose session store knows no peer. \<open>offline_client\<close> differs in that its directory
  is unreachable.
\<close>

definition sample_client :: "string client" where
  "sample_client =
    \<lparr>get_input_entity = (\<lambda>t x.
        if x = ''me'' then Inr InputPeerSelf
        else if x = ''durov'' then Inr (InputPeerUser 7 (Some 99))
        else Inl ValueError),
     get_me = (\<lambda>t. Inr (InputPeerUser 42 (Some 1234))),
     client_get_peer_id = (\<lambda>t s. if s = ''me'' then Inr 42 else Inl ValueError),
     session_get_input_entity = (\<lambda>t p. Inl ValueError)\<rparr>"

definition offline_client :: "string client" where
  "offline_client =
    sample_client\<lparr>get_input_entity := (\<lambda>t x. Inl (OtherError ''ConnectionError''))\<rparr>"

definition session_client :: "string client" where
  "session_client =
    sample_client\<lparr>session_get_input_entity := (\<lambda>t p. Inr (InputPeerChannel 123 (Some 555)))\<rparr>"

definition empty_world :: "string world" where
  "empty_world = \<lparr>trace = [], self_id = None\<rparr>"

definition sample_event :: "peer option \<Rightarrow> (string, nat, unit) event_common" where
  "sample_event p = init_event p None False"

text \<open>
  A store of four classes: \<open>NewMessage\<close> (reference \<open>0\<close>) with the inner class \<open>Event\<close>
  (\<open>1\<close>), which derives from \<open>EventCommon\<close> (\<open>2\<close>), and \<open>Raw\<close> (every other reference),
  which has no inner class.
\<close>

definition sample_classes :: "nat \<Rightarrow> pyclass" where
  "sample_classes r =
    (if r = 0 then
       \<lparr>cls_name = ''NewMessage'', cls_repr = ''<class NewMessage>'', cls_bases = [],
        cls_dict = [''Event'' \<mapsto> ClassRef 1]\<rparr>
     else if r = 1 then
       \<lparr>cls_name = ''Event'', cls_repr = ''<class NewMessage.Event>'', cls_bases = [2],
        cls_dict = Map.empty\<rparr>
     else if r = 2 then
       \<lparr>cls_name = ''EventCommon'', cls_repr = ''<class EventCommon>'', cls_bases = [],
        cls_dict = [''_event_name'' \<mapsto> StrVal ''Event'']\<rparr>
     else
       \<lparr>cls_name = ''Raw'', cls_repr = ''<class Raw>'', cls_bases = [],
        cls_dict = Map.empty\<rparr>)"

text \<open>An event of a subclass that stores a public and a private attribute of its own.\<close>

definition message_event :: "(string, nat, unit) event_common" where
  "message_event =
    (sample_event (Some (PeerUser 123)))
      \<lparr>ev_extra := [(''message'', PyStr ''hello''), (''_sender'', PyNone)],
       cls_event_name := ''NewMessage.Event''\<rparr>"

section \<open>Properties\<close>

subsection \<open>The decision of \<open>filter\<close>\<close>

text \<open>
  C1. A builder whose \<open>chats\<close> is a resolved set \<open>S\<close>, an event whose chat reference has the
  canonical identifier \<open>pid\<close>: \<open>filter\<close> returns the event if and only if membership of
  \<open>pid\<close> in \<open>S\<close> differs from the flag \<open>blacklist_chats\<close>, and returns \<open>None\<close> otherwise.
  So for the same \<open>S\<close> and event the decision in blacklist mode is the negation of the
  decision in whitelist mode.
\<close>

theorem filter_keeps_iff_inside_differs:
  assumes "chats b = Some (IdSet S)"
    and "get_peer_id u (peer_arg (ev_chat_peer ev)) = Inr pid"
  shows "fst (filter_event u b ev)
           = (if (pid \<in> S) \<noteq> blacklist_chats b then Inr (Some ev) else Inr None)
    \<and> ((fst (filter_event u b ev) = Inr (Some ev)) = ((pid \<in> S) \<noteq> blacklist_chats b))
    \<and> ((fst (filter_event u (b\<lparr>blacklist_chats := True\<rparr>) ev) = Inr (Some ev))
        = (\<not> (fst (filter_event u (b\<lparr>blacklist_chats := False\<rparr>) ev) = Inr (Some ev))))"
  using assms by (auto simp: filter_event_def contains_def)

text \<open>
  The scope of the bare number \<open>123\<close>: the event of channel \<open>123\<close> is kept in whitelist mode
  and dropped in blacklist mode, the event of user \<open>456\<close> is dropped in whitelist mode.
\<close>

theorem filter_keeps_iff_witness:
  "fst (filter_event sample_utils (init_builder (Some (IdSet {123, - 123, - 1000000000123})) False)
         (sample_event (Some (PeerChannel 123))))
     = Inr (Some (sample_event (Some (PeerChannel 123))))
   \<and> fst (filter_event sample_utils (init_builder (Some (IdSet {123, - 123, - 1000000000123})) True)
         (sample_event (Some (PeerChannel 123)))) = Inr None
   \<and> fst (filter_event sample_utils (init_builder (Some (IdSet {123, - 123, - 1000000000123})) False)
         (sample_event (Some (PeerUser 456)))) = Inr None"
proof -
  let ?S = "{123, - 123, - 1000000000123} :: int set"
  have c: "\<And>f. chats (init_builder (Some (IdSet ?S)) f :: string event_builder) = Some (IdSet ?S)"
    by (simp add: init_builder_def)
  have p1: "get_peer_id sample_utils (peer_arg (ev_chat_peer (sample_event (Some (PeerChannel 123)))))
      = Inr (- 1000000000123)"
    by (simp add: sample_utils_def sample_event_def init_event_def peer_arg_def)
  have p2: "get_peer_id sample_utils (peer_arg (ev_chat_peer (sample_event (Some (PeerUser 456)))))
      = Inr 456"
    by (simp add: sample_utils_def sample_event_def init_event_def peer_arg_def)
  show ?thesis
    using filter_keeps_iff_inside_differs [OF c p1, of False]
      filter_keeps_iff_inside_differs [OF c p1, of True]
      filter_keeps_iff_inside_differs [OF c p2, of False]
    by (simp add: init_builder_def)
qed

subsection \<open>\<open>filter\<close> changes nothing\<close>

text \<open>
  C10. Whatever the builder and the event: the call leaves both as they were; what it
  returns is the event it was given or \<open>None\<close>; and it raises instead of returning exactly
  when the builder has a scope and either \<open>get_peer_id\<close> raises on the event's chat
  reference or the scope is still one unresolved specifier.
\<close>

theorem filter_frame:
  "snd (filter_event u b ev) = (b, ev)
   \<and> (fst (filter_event u b ev) = Inr (Some ev) \<or> fst (filter_event u b ev) = Inr None
        \<or> (\<exists>e. fst (filter_event u b ev) = Inl e))
   \<and> ((\<exists>e. fst (filter_event u b ev) = Inl e)
        = (chats b \<noteq> None \<and>
            (isl (get_peer_id u (peer_arg (ev_chat_peer ev))) \<or> (\<exists>c. chats b = Some (Single c)))))"
  by (auto simp: filter_event_def contains_def isl_def
      split: option.splits sum.splits chats_value.splits)

text \<open>
  A builder in blacklist mode on the scope \<open>{123}\<close>: the event of user \<open>123\<close> is dropped,
  an event without a chat reference makes \<open>get_peer_id\<close> raise, and builder and event are
  as before.
\<close>

theorem filter_frame_witness:
  "snd (filter_event sample_utils (init_builder (Some (IdSet {123})) True)
          (sample_event (Some (PeerUser 123))))
     = (init_builder (Some (IdSet {123})) True, sample_event (Some (PeerUser 123)))
   \<and> fst (filter_event sample_utils (init_builder (Some (IdSet {123})) True)
          (sample_event (Some (PeerUser 123)))) = Inr None
   \<and> fst (filter_event sample_utils (init_builder (Some (IdSet {123})) True)
          (sample_event None)) = Inl TypeError"
  using filter_frame [of sample_utils "init_builder (Some (IdSet {123})) True"
      "sample_event (Some (PeerUser 123))"]
  by (simp add: filter_event_def contains_def init_builder_def sample_utils_def
      sample_event_def init_event_def peer_arg_def)

subsection \<open>No scope, no filtering\<close>

text \<open>
  C2, as the code has it. A specification that is absent (\<open>None\<close>): \<open>_into_id_set\<close>
  returns \<open>None\<close> without calling the client, \<open>resolve\<close> leaves \<open>chats\<close> at \<open>None\<close>
  (whether or not the identity lookup after it raises), and \<open>filter\<close> on a builder without
  a scope returns every event, whatever \<open>blacklist_chats\<close> is.
\<close>

theorem absent_chats_unbounded:
  assumes "chats b = None"
  shows "into_id_set u cl t (chats b) = (t, Inr None)
    \<and> chats (fst (snd (resolve u cl w b))) = None
    \<and> fst (filter_event u (fst (snd (resolve u cl w b))) ev) = Inr (Some ev)
    \<and> fst (filter_event u (b\<lparr>blacklist_chats := f\<rparr>) ev) = Inr (Some ev)"
  using assms
  by (auto simp: into_id_set_def resolve_def filter_event_def Let_def split: sum.splits)

theorem absent_chats_unbounded_witness:
  "into_id_set sample_utils sample_client [] None = ([], Inr None)
   \<and> chats (fst (snd (resolve sample_utils sample_client empty_world (init_builder None True)))) = None
   \<and> fst (filter_event sample_utils
            (fst (snd (resolve sample_utils sample_client empty_world (init_builder None True))))
            (sample_event (Some (PeerUser 456))))
       = Inr (Some (sample_event (Some (PeerUser 456))))"
proof -
  have c: "chats (init_builder None True :: string event_builder) = None"
    by (simp add: init_builder_def)
  show ?thesis
    using absent_chats_unbounded [OF c, of sample_utils sample_client "[]" empty_world
        "sample_event (Some (PeerUser 456))" True]
    by (simp add: init_builder_def)
qed

text \<open>
  An empty collection is not absent: the guard of line 11 tests \<open>None\<close> only, the loop runs
  over nothing, and the result is the empty set. In whitelist mode the builder then drops
  every event.
\<close>

theorem empty_collection_is_not_unbounded:
  "into_id_set sample_utils sample_client [] (Some (ListLike [])) = ([], Inr (Some {}))
   \<and> into_id_set sample_utils sample_client [] (Some (ListLike [])) \<noteq> ([], Inr None)
   \<and> chats (fst (snd (resolve sample_utils sample_client empty_world
              (init_builder (Some (ListLike [])) False)))) = Some (IdSet {})
   \<and> fst (filter_event sample_utils
            (fst (snd (resolve sample_utils sample_client empty_world
              (init_builder (Some (ListLike [])) False))))
            (sample_event (Some (PeerUser 456)))) = Inr None
   \<and> fst (filter_event sample_utils
            (fst (snd (resolve sample_utils sample_client empty_world
              (init_builder (Some (ListLike [])) False))))
            (sample_event (Some (PeerUser 456))))
       \<noteq> Inr (Some (sample_event (Some (PeerUser 456))))"
  by (simp add: into_id_set_def to_iterable_def resolve_def empty_world_def init_builder_def
      truthy_def sample_client_def filter_event_def contains_def sample_utils_def
      sample_event_def init_event_def peer_arg_def)

subsection \<open>A bare integer\<close>




subsection \<open>The identity lookup\<close>

text \<open>
  No call made by \<open>_into_id_set\<close> is an identity lookup: only line 71 of \<open>resolve\<close> asks
  for \<open>get_peer_id('me')\<close>.
\<close>

lemma identity_lookups_append:
  "identity_lookups (t @ s) = identity_lookups t + identity_lookups s"
  by (simp add: identity_lookups_def)

















subsection \<open>A failed lookup leaves \<open>resolve\<close>\<close>

lemma into_loop_append:
  "into_loop u cl (xs @ ys) t result =
    (case into_loop u cl xs t result of
       (t', Inl e) \<Rightarrow> (t', Inl e)
     | (t', Inr result') \<Rightarrow> into_loop u cl ys t' result')"
proof (induction xs arbitrary: t result)
  case Nil
  show ?case by simp
next
  case (Cons chat rest)
  obtain t' r' where step: "add_chat u cl t result chat = (t', r')"
    by (cases "add_chat u cl t result chat")
  with Cons.IH show ?case
    by (cases r') simp_all
qed

lemma add_chat_lookup_fails:
  assumes "get_input_entity cl t x = Inl e"
  shows "add_chat u cl t result (OtherSpec x) = (t @ [GetInputEntity x], Inl e)"
  using assms by (simp add: add_chat_def)

lemma resolve_propagates:
  assumes "into_id_set u cl (trace w) (chats b) = (t', Inl e)"
  shows "resolve u cl w b = (w\<lparr>trace := t'\<rparr>, b, Some e)"
  using assms by (simp add: resolve_def)

text \<open>
  C7. The specifiers before \<open>x\<close> were added without an exception, and the directory raises
  \<open>e\<close> on \<open>x\<close>: \<open>resolve\<close> raises \<open>e\<close>. The log has the one call for \<open>x\<close> and nothing
  after it (no second attempt, no specifier after \<open>x\<close>, no identity lookup); the builder
  is as before the call, \<open>chats\<close> included, and so is the identity cache. The same holds
  for every exception that leaves \<open>_into_id_set\<close>.
\<close>

theorem lookup_failure_propagates:
  assumes "chats b = Some cs"
    and "to_iterable cs = pre @ OtherSpec x # post"
    and "into_loop u cl pre (trace w) {} = (t1, Inr r1)"
    and "get_input_entity cl t1 x = Inl e"
  shows "resolve u cl w b = (w\<lparr>trace := t1 @ [GetInputEntity x]\<rparr>, b, Some e)
    \<and> chats (fst (snd (resolve u cl w b))) = chats b
    \<and> self_id (fst (resolve u cl w b)) = self_id w
    \<and> (\<forall>t' e'. into_id_set u cl (trace w) (chats b) = (t', Inl e') \<longrightarrow>
          resolve u cl w b = (w\<lparr>trace := t'\<rparr>, b, Some e'))"
proof -
  have "into_loop u cl (pre @ OtherSpec x # post) (trace w) {} = (t1 @ [GetInputEntity x], Inl e)"
    using assms(3) add_chat_lookup_fails [OF assms(4), of u r1]
    by (simp add: into_loop_append)
  then have "into_id_set u cl (trace w) (chats b) = (t1 @ [GetInputEntity x], Inl e)"
    using assms(1,2) by (simp add: into_id_set_def)
  from resolve_propagates [OF this] have 1:
    "resolve u cl w b = (w\<lparr>trace := t1 @ [GetInputEntity x]\<rparr>, b, Some e)" .
  have 2: "\<forall>t' e'. into_id_set u cl (trace w) (chats b) = (t', Inl e') \<longrightarrow>
          resolve u cl w b = (w\<lparr>trace := t'\<rparr>, b, Some e')"
    using resolve_propagates by blast
  from 1 2 show ?thesis by simp
qed

text \<open>A client whose directory is unreachable, and a list whose second specifier needs it.\<close>

theorem lookup_failure_propagates_witness:
  "resolve sample_utils offline_client empty_world
      (init_builder (Some (ListLike [IntSpec (- 5), OtherSpec ''durov'', OtherSpec ''me''])) False)
    = (\<lparr>trace = [GetInputEntity ''durov''], self_id = None\<rparr>,
       init_builder (Some (ListLike [IntSpec (- 5), OtherSpec ''durov'', OtherSpec ''me''])) False,
       Some (OtherError ''ConnectionError''))"
proof -
  let ?cs = "ListLike [IntSpec (- 5), OtherSpec ''durov'', OtherSpec ''me''] :: string chats_value"
  have 1: "chats (init_builder (Some ?cs) False) = Some ?cs"
    by (simp add: init_builder_def)
  have 2: "to_iterable ?cs = [IntSpec (- 5)] @ OtherSpec ''durov'' # [OtherSpec ''me'']"
    by (simp add: to_iterable_def)
  have 3: "into_loop sample_utils offline_client [IntSpec (- 5)] (trace empty_world) {}
      = ([], Inr {- 5})"
    by (simp add: add_chat_def empty_world_def)
  have 4: "get_input_entity offline_client [] ''durov'' = Inl (OtherError ''ConnectionError'')"
    by (simp add: offline_client_def sample_client_def)
  show ?thesis
    using lookup_failure_propagates [OF 1 2 3 4]
    by (simp add: empty_world_def)
qed

subsection \<open>Binding the client\<close>

lemma chat_id_client: "chat_id u (ev\<lparr>ev_client := c\<rparr>) = chat_id u ev"
  by (simp add: chat_id_def)

text \<open>
  C5. The identifier of the chat reference is in the snapshot, and the input form of the
  entity found there is usable as it is (it has no \<open>access_hash\<close> attribute, or a truthy
  one): \<open>_set_client\<close> stores the entity and its input form, calls nobody and returns.
  The event has no chat reference, or its identifier is not in the snapshot:
  \<open>_set_client\<close> sets \<open>_chat\<close> to \<open>None\<close>, does not touch \<open>_input_chat\<close> (which is \<open>None\<close>
  on an event that was never bound), calls nobody and returns without an exception.
\<close>

theorem bind_sets_or_leaves_input_chat:
  "(chat_id u ev = Inr (Some i) \<and> ev_entities ev i = Some ent
      \<and> get_input_peer u ent = Inr ip \<and> getattr_access_hash ip \<longrightarrow>
        set_client u t ev cl
          = (t, ev\<lparr>ev_client := Some cl, ev_chat := Some ent, ev_input_chat := Some ip\<rparr>, None)
      \<and> ev_input_chat (fst (snd (set_client u t ev cl))) \<noteq> None)
   \<and> (chat_id u ev = Inr k \<and> (case k of None \<Rightarrow> None | Some j \<Rightarrow> ev_entities ev j) = None \<longrightarrow>
        set_client u t ev cl = (t, ev\<lparr>ev_client := Some cl, ev_chat := None\<rparr>, None)
      \<and> ev_chat (fst (snd (set_client u t ev cl))) = None
      \<and> ev_input_chat (fst (snd (set_client u t ev cl))) = ev_input_chat ev
      \<and> (ev_input_chat ev = None \<longrightarrow> ev_input_chat (fst (snd (set_client u t ev cl))) = None))"
  by (auto simp: set_client_def chat_id_client Let_def split: option.splits)

text \<open>
  A snapshot that knows user \<open>123\<close>: the event of user \<open>123\<close> gets its input chat, the
  event of user \<open>456\<close> is left with neither chat nor input chat.
\<close>

theorem bind_sets_or_leaves_witness:
  "set_client sample_utils [] ((sample_event (Some (PeerUser 123)))\<lparr>ev_entities := [123 \<mapsto> 1]\<rparr>)
      sample_client
    = ([], (sample_event (Some (PeerUser 123)))
         \<lparr>ev_entities := [123 \<mapsto> 1], ev_client := Some sample_client, ev_chat := Some 1,
          ev_input_chat := Some (InputPeerUser 123 (Some 777))\<rparr>, None)
   \<and> set_client sample_utils [] ((sample_event (Some (PeerUser 456)))\<lparr>ev_entities := [123 \<mapsto> 1]\<rparr>)
      sample_client
    = ([], (sample_event (Some (PeerUser 456)))
         \<lparr>ev_entities := [123 \<mapsto> 1], ev_client := Some sample_client, ev_chat := None\<rparr>, None)
   \<and> ev_input_chat (fst (snd (set_client sample_utils []
        ((sample_event (Some (PeerUser 456)))\<lparr>ev_entities := [123 \<mapsto> 1]\<rparr>) sample_client))) = None"
proof -
  let ?e1 = "(sample_event (Some (PeerUser 123)))\<lparr>ev_entities := [123 \<mapsto> 1]\<rparr>"
  let ?e2 = "(sample_event (Some (PeerUser 456)))\<lparr>ev_entities := [123 \<mapsto> 1]\<rparr>"
  have 1: "chat_id sample_utils ?e1 = Inr (Some 123) \<and> ev_entities ?e1 123 = Some 1
      \<and> get_input_peer sample_utils 1 = Inr (InputPeerUser 123 (Some 777))
      \<and> getattr_access_hash (InputPeerUser 123 (Some 777))"
    by (simp add: chat_id_def sample_event_def init_event_def sample_utils_def
        sample_get_input_peer_def truthy_def)
  have 2: "chat_id sample_utils ?e2 = Inr (Some 456)
      \<and> (case Some 456 of None \<Rightarrow> None | Some j \<Rightarrow> ev_entities ?e2 j) = None"
    by (simp add: chat_id_def sample_event_def init_event_def sample_utils_def)
  have 3: "ev_input_chat ?e2 = None"
    by (simp add: sample_event_def init_event_def)
  show ?thesis
    using bind_sets_or_leaves_input_chat [of sample_utils ?e1 123 1
        "InputPeerUser 123 (Some 777)" "[]" sample_client "Some 123"]
      bind_sets_or_leaves_input_chat [of sample_utils ?e2 456 1
        "InputPeerUser 123 (Some 777)" "[]" sample_client "Some 456"] 1 2 3
    by (simp add: )
qed

subsection \<open>An input form without its access hash\<close>

text \<open>
  The test of line 120 is false exactly for an input form that has the attribute
  \<open>access_hash\<close> with a falsy value in it, \<open>None\<close> or \<open>0\<close>.
\<close>

lemma lacks_access_hash:
  "(\<not> getattr_access_hash q)
    = (\<exists>j h. (q = InputPeerUser j h \<or> q = InputPeerChannel j h) \<and> (h = None \<or> h = Some 0))"
  by (cases q) (auto simp: truthy_def split: option.splits)

text \<open>
  C6, as the code has it. The entity is found and has the input form \<open>ip\<close>. If \<open>ip\<close>
  fails the test of line 120, the session store is asked once, with the event's own chat
  reference: if it raises \<open>ValueError\<close>, \<open>_set_client\<close> returns normally with
  \<open>_input_chat\<close> at \<open>None\<close>; if it answers, the answer is the input chat; any other
  exception leaves \<open>_set_client\<close> with \<open>_input_chat\<close> still at \<open>ip\<close>. If \<open>ip\<close> passes
  the test, nobody is asked and \<open>ip\<close> is the input chat. The test fails exactly for an
  \<open>InputPeerUser\<close> or \<open>InputPeerChannel\<close> whose hash is \<open>None\<close> or \<open>0\<close>; an input form
  without the attribute passes it, \<open>InputPeerSelf\<close> like \<open>InputPeerChat\<close> and
  \<open>InputPeerEmpty\<close>.
\<close>

theorem falsy_access_hash_falls_back:
  assumes "chat_id u ev = Inr (Some i)"
    and "ev_entities ev i = Some ent"
    and "get_input_peer u ent = Inr ip"
  shows "(\<not> getattr_access_hash ip \<longrightarrow>
        fst (set_client u t ev cl) = t @ [SessionGetInputEntity (ev_chat_peer ev)]
      \<and> (session_get_input_entity cl t (ev_chat_peer ev) = Inl ValueError \<longrightarrow>
            set_client u t ev cl
              = (t @ [SessionGetInputEntity (ev_chat_peer ev)],
                 ev\<lparr>ev_client := Some cl, ev_chat := Some ent, ev_input_chat := None\<rparr>, None))
      \<and> (\<forall>ip'. session_get_input_entity cl t (ev_chat_peer ev) = Inr ip' \<longrightarrow>
            set_client u t ev cl
              = (t @ [SessionGetInputEntity (ev_chat_peer ev)],
                 ev\<lparr>ev_client := Some cl, ev_chat := Some ent, ev_input_chat := Some ip'\<rparr>, None))
      \<and> (\<forall>e. session_get_input_entity cl t (ev_chat_peer ev) = Inl e \<and> e \<noteq> ValueError \<longrightarrow>
            set_client u t ev cl
              = (t @ [SessionGetInputEntity (ev_chat_peer ev)],
                 ev\<lparr>ev_client := Some cl, ev_chat := Some ent, ev_input_chat := Some ip\<rparr>, Some e)))
    \<and> (getattr_access_hash ip \<longrightarrow>
          set_client u t ev cl
            = (t, ev\<lparr>ev_client := Some cl, ev_chat := Some ent, ev_input_chat := Some ip\<rparr>, None))
    \<and> (\<not> getattr_access_hash ip)
        = (\<exists>j h. (ip = InputPeerUser j h \<or> ip = InputPeerChannel j h) \<and> (h = None \<or> h = Some 0))
    \<and> getattr_access_hash InputPeerSelf
    \<and> getattr_access_hash (InputPeerChat k)
    \<and> getattr_access_hash InputPeerEmpty"
proof (intro conjI)
  show "(\<not> getattr_access_hash ip)
        = (\<exists>j h. (ip = InputPeerUser j h \<or> ip = InputPeerChannel j h) \<and> (h = None \<or> h = Some 0))"
    by (rule lacks_access_hash)
  show "getattr_access_hash InputPeerSelf" "getattr_access_hash (InputPeerChat k)"
    "getattr_access_hash InputPeerEmpty" by simp_all
  show "getattr_access_hash ip \<longrightarrow>
          set_client u t ev cl
            = (t, ev\<lparr>ev_client := Some cl, ev_chat := Some ent, ev_input_chat := Some ip\<rparr>, None)"
    using assms by (simp add: set_client_def chat_id_client Let_def)
  show "\<not> getattr_access_hash ip \<longrightarrow>
        fst (set_client u t ev cl) = t @ [SessionGetInputEntity (ev_chat_peer ev)]
      \<and> (session_get_input_entity cl t (ev_chat_peer ev) = Inl ValueError \<longrightarrow>
            set_client u t ev cl
              = (t @ [SessionGetInputEntity (ev_chat_peer ev)],
                 ev\<lparr>ev_client := Some cl, ev_chat := Some ent, ev_input_chat := None\<rparr>, None))
      \<and> (\<forall>ip'. session_get_input_entity cl t (ev_chat_peer ev) = Inr ip' \<longrightarrow>
            set_client u t ev cl
              = (t @ [SessionGetInputEntity (ev_chat_peer ev)],
                 ev\<lparr>ev_client := Some cl, ev_chat := Some ent, ev_input_chat := Some ip'\<rparr>, None))
      \<and> (\<forall>e. session_get_input_entity cl t (ev_chat_peer ev) = Inl e \<and> e \<noteq> ValueError \<longrightarrow>
            set_client u t ev cl
              = (t @ [SessionGetInputEntity (ev_chat_peer ev)],
                 ev\<lparr>ev_client := Some cl, ev_chat := Some ent, ev_input_chat := Some ip\<rparr>, Some e))"
    using assms
    by (auto simp: set_client_def chat_id_client Let_def split: sum.splits)
qed

text \<open>
  Channel \<open>123\<close>, known to the snapshot without an access hash and unknown to the session
  store: one call to the store, no exception, no input chat.
\<close>

theorem falsy_access_hash_witness:
  "set_client sample_utils []
      ((sample_event (Some (PeerChannel 123)))\<lparr>ev_entities := [- 1000000000123 \<mapsto> 2]\<rparr>) sample_client
    = ([SessionGetInputEntity (Some (PeerChannel 123))],
       (sample_event (Some (PeerChannel 123)))
         \<lparr>ev_entities := [- 1000000000123 \<mapsto> 2], ev_client := Some sample_client,
          ev_chat := Some 2, ev_input_chat := None\<rparr>, None)"
proof -
  let ?e = "(sample_event (Some (PeerChannel 123)))\<lparr>ev_entities := [- 1000000000123 \<mapsto> 2]\<rparr>"
  have 1: "chat_id sample_utils ?e = Inr (Some (- 1000000000123))"
    by (simp add: chat_id_def sample_event_def init_event_def sample_utils_def)
  have 2: "ev_entities ?e (- 1000000000123) = Some 2" by simp
  have 3: "get_input_peer sample_utils 2 = Inr (InputPeerChannel 123 (Some 0))"
    by (simp add: sample_utils_def sample_get_input_peer_def)
  have 4: "\<not> getattr_access_hash (InputPeerChannel 123 (Some 0))"
    by (simp add: truthy_def)
  have 5: "session_get_input_entity sample_client [] (ev_chat_peer ?e) = Inl ValueError"
    by (simp add: sample_client_def)
  have 6: "ev_chat_peer ?e = Some (PeerChannel 123)"
    by (simp add: sample_event_def init_event_def)
  from falsy_access_hash_falls_back [OF 1 2 3, of "[]" sample_client] 4 5
  have "set_client sample_utils [] ?e sample_client
      = ([] @ [SessionGetInputEntity (ev_chat_peer ?e)],
         ?e\<lparr>ev_client := Some sample_client, ev_chat := Some 2, ev_input_chat := None\<rparr>, None)"
    by blast
  then show ?thesis by (simp add: 6)
qed

text \<open>
  A basic group: its input form has no \<open>access_hash\<close> and is not the self peer, and the
  session store, which would answer, is not asked.
\<close>

theorem missing_access_hash_no_fallback:
  "get_input_peer sample_utils 4 = Inr (InputPeerChat 123)
   \<and> InputPeerChat 123 \<noteq> InputPeerSelf
   \<and> set_client sample_utils []
      ((sample_event (Some (PeerChat 123)))\<lparr>ev_entities := [- 123 \<mapsto> 4]\<rparr>) session_client
    = ([],
       (sample_event (Some (PeerChat 123)))
         \<lparr>ev_entities := [- 123 \<mapsto> 4], ev_client := Some session_client,
          ev_chat := Some 4, ev_input_chat := Some (InputPeerChat 123)\<rparr>, None)
   \<and> fst (set_client sample_utils []
      ((sample_event (Some (PeerChat 123)))\<lparr>ev_entities := [- 123 \<mapsto> 4]\<rparr>) session_client)
      \<noteq> [SessionGetInputEntity (Some (PeerChat 123))]"
  by (simp add: set_client_def chat_id_def Let_def sample_utils_def sample_get_input_peer_def
      sample_event_def init_event_def)

subsection \<open>The structured representation\<close>

lemma update_other_entries:
  "k' \<noteq> k \<Longrightarrow> ((k', v') \<in> set (AList.update k v al)) = ((k', v') \<in> set al)"
  by (induction al) auto

lemma vars_of_names:
  "fst ` set (vars_of ev)
    = {''_entities'', ''_client'', ''_chat_peer'', ''_message_id'', ''_input_chat'', ''_chat'',
       ''_broadcast'', ''original_update''} \<union> fst ` set (ev_extra ev)"
  by (auto simp: vars_of_def)

lemma to_dict_returns:
  assumes "[] \<notin> fst ` set (ev_extra ev)"
  shows "to_dict ev = Inr (AList.update ''_'' (event_name ev)
                 (filter (\<lambda>(k, v). hd k \<noteq> CHR ''_'') (vars_of ev)))"
proof -
  have "[] \<notin> fst ` set (vars_of ev)"
    using assms unfolding vars_of_names by simp
  then show ?thesis
    unfolding to_dict_def by (simp only: if_False)
qed

text \<open>
  C8. An instance whose attribute names are not empty (the eight of \<open>__init__\<close> and
  whatever names the subclass added): \<open>to_dict\<close> returns a dictionary \<open>d\<close>; under the key
  \<open>_\<close> it holds \<open>self._event_name\<close>, which is the class's \<open>_event_name\<close> unless the
  instance has an attribute of that name; every other entry of \<open>d\<close> is an attribute of the
  instance whose name does not begin with an underscore, and every such attribute is in
  \<open>d\<close>. The key of the discriminator itself is the one name in \<open>d\<close> that begins with an
  underscore.
\<close>

theorem to_dict_discriminator_and_public:
  assumes "[] \<notin> fst ` set (ev_extra ev)"
  shows "\<exists>d. to_dict ev = Inr d
    \<and> map_of d ''_'' = Some (event_name ev)
    \<and> (\<forall>(k, v) \<in> set d. k \<noteq> ''_'' \<longrightarrow> k \<noteq> [] \<and> hd k \<noteq> CHR ''_'' \<and> (k, v) \<in> set (vars_of ev))
    \<and> (\<forall>(k, v) \<in> set (vars_of ev). hd k \<noteq> CHR ''_'' \<longrightarrow> (k, v) \<in> set d)
    \<and> (map_of (vars_of ev) ''_event_name'' = None \<longrightarrow> event_name ev = PyStr (cls_event_name ev))"
proof -
  let ?pub = "filter (\<lambda>(k, v). hd k \<noteq> CHR ''_'') (vars_of ev)"
  let ?d = "AList.update ''_'' (event_name ev) ?pub"
  have nonempty: "[] \<notin> fst ` set (vars_of ev)"
    using assms unfolding vars_of_names by simp
  have 1: "to_dict ev = Inr ?d" by (rule to_dict_returns [OF assms])
  have 2: "map_of ?d ''_'' = Some (event_name ev)"
    by (simp add: update_conv')
  have 3: "\<forall>(k, v) \<in> set ?d. k \<noteq> ''_'' \<longrightarrow> k \<noteq> [] \<and> hd k \<noteq> CHR ''_'' \<and> (k, v) \<in> set (vars_of ev)"
  proof (clarify, intro conjI)
    fix k v assume in_d: "(k, v) \<in> set ?d" and other: "k \<noteq> ''_''"
    then have in_pub: "(k, v) \<in> set ?pub"
      using update_other_entries [of k "''_''" v "event_name ev" ?pub] by blast
    then show "(k, v) \<in> set (vars_of ev)" and "hd k \<noteq> CHR ''_''" by simp_all
    from in_pub have "k \<in> fst ` set (vars_of ev)" by force
    with nonempty show "k \<noteq> []" by blast
  qed
  have 4: "\<forall>(k, v) \<in> set (vars_of ev). hd k \<noteq> CHR ''_'' \<longrightarrow> (k, v) \<in> set ?d"
  proof clarify
    fix k v assume "(k, v) \<in> set (vars_of ev)" and pub: "hd k \<noteq> CHR ''_''"
    then have in_pub: "(k, v) \<in> set ?pub" by simp
    from pub have "k \<noteq> ''_''" by auto
    then show "(k, v) \<in> set ?d"
      using in_pub update_other_entries [of k "''_''" v "event_name ev" ?pub] by blast
  qed
  have 5: "map_of (vars_of ev) ''_event_name'' = None \<longrightarrow> event_name ev = PyStr (cls_event_name ev)"
    by (simp add: event_name_def)
  show ?thesis
  proof (intro exI [of _ ?d] conjI)
    show "to_dict ev = Inr ?d" by (rule 1)
    show "map_of ?d ''_'' = Some (event_name ev)" by (rule 2)
    show "\<forall>(k, v) \<in> set ?d. k \<noteq> ''_'' \<longrightarrow> k \<noteq> [] \<and> hd k \<noteq> CHR ''_'' \<and> (k, v) \<in> set (vars_of ev)"
      by (rule 3)
    show "\<forall>(k, v) \<in> set (vars_of ev). hd k \<noteq> CHR ''_'' \<longrightarrow> (k, v) \<in> set ?d" by (rule 4)
    show "map_of (vars_of ev) ''_event_name'' = None \<longrightarrow> event_name ev = PyStr (cls_event_name ev)"
      by (rule 5)
  qed
qed

text \<open>
  An event with the public attribute \<open>message\<close> and the private \<open>_sender\<close>: the dictionary
  has \<open>original_update\<close>, \<open>message\<close> and the discriminator.
\<close>

theorem to_dict_witness:
  "to_dict message_event
    = Inr [(''original_update'', PyNone), (''message'', PyStr ''hello''),
           (''_'', PyStr ''NewMessage.Event'')]
   \<and> (\<exists>d. to_dict message_event = Inr d
          \<and> map_of d ''_'' = Some (event_name message_event))"
proof -
  have 1: "[] \<notin> fst ` set (ev_extra message_event)"
    by (simp add: message_event_def)
  have 2: "to_dict message_event
    = Inr [(''original_update'', PyNone), (''message'', PyStr ''hello''),
           (''_'', PyStr ''NewMessage.Event'')]"
    by (simp add: to_dict_def vars_of_def event_name_def message_event_def sample_event_def
        init_event_def opt_val_def)
  from to_dict_discriminator_and_public [OF 1] obtain d where
    "to_dict message_event = Inr d \<and> map_of d ''_'' = Some (event_name message_event)"
    by blast
  then have "\<exists>d. to_dict message_event = Inr d
          \<and> map_of d ''_'' = Some (event_name message_event)" ..
  with 2 show ?thesis by (rule conjI)
qed

subsection \<open>Naming the inner event\<close>

lemma lookup_mro_update_other:
  assumes "a \<noteq> b"
  shows "lookup_mro (h(r := (h r)\<lparr>cls_dict := (cls_dict (h r))(b \<mapsto> v)\<rparr>)) rs a = lookup_mro h rs a"
  using assms by (induction rs) (auto split: option.splits)

lemma class_getattr_update_other:
  assumes "a \<noteq> b"
  shows "class_getattr (h(r := (h r)\<lparr>cls_dict := (cls_dict (h r))(b \<mapsto> v)\<rparr>)) c a
    = class_getattr h c a"
  using assms by (auto simp: class_getattr_def lookup_mro_update_other split: option.splits)

lemma name_inner_event_found:
  assumes "class_getattr h c ''Event'' = Some (ClassRef r)"
  shows "name_inner_event h warns c
        = (h(r := (h r)\<lparr>cls_dict :=
              (cls_dict (h r))(''_event_name'' \<mapsto> StrVal (cls_name (h c) @ ''.Event''))\<rparr>),
           warns, Inr c)"
  using assms by (simp add: name_inner_event_def)

lemma name_inner_event_missing:
  assumes "class_getattr h c ''Event'' = None"
  shows "name_inner_event h warns c
        = (h, warns @ [''Class '' @ cls_repr (h c) @ '' does not have a inner Event''], Inr c)"
  using assms by (simp add: name_inner_event_def)

text \<open>
  C9. The class \<open>c\<close> has an attribute \<open>Event\<close> that is a class \<open>r\<close>: \<open>name_inner_event\<close>
  sets \<open>_event_name\<close> of \<open>r\<close> to the name of \<open>c\<close> followed by \<open>.Event\<close>, warns about
  nothing and returns \<open>c\<close>; no other attribute of any class changes, no class changes its
  name or its bases, and \<open>c.Event\<close> is still \<open>r\<close>. The class has no attribute \<open>Event\<close>:
  the store is unchanged, one warning is added, no exception is raised, and \<open>c\<close> is
  returned.
\<close>

theorem name_inner_event_renames_or_warns:
  "(class_getattr h c ''Event'' = Some (ClassRef r) \<longrightarrow>
      name_inner_event h warns c
        = (h(r := (h r)\<lparr>cls_dict :=
              (cls_dict (h r))(''_event_name'' \<mapsto> StrVal (cls_name (h c) @ ''.Event''))\<rparr>),
           warns, Inr c)
    \<and> cls_dict (fst (name_inner_event h warns c) r) ''_event_name''
        = Some (StrVal (cls_name (h c) @ ''.Event''))
    \<and> (\<forall>r' a. r' \<noteq> r \<or> a \<noteq> ''_event_name'' \<longrightarrow>
          cls_dict (fst (name_inner_event h warns c) r') a = cls_dict (h r') a)
    \<and> (\<forall>r'. cls_name (fst (name_inner_event h warns c) r') = cls_name (h r')
          \<and> cls_repr (fst (name_inner_event h warns c) r') = cls_repr (h r')
          \<and> cls_bases (fst (name_inner_event h warns c) r') = cls_bases (h r'))
    \<and> class_getattr (fst (name_inner_event h warns c)) c ''Event'' = Some (ClassRef r))
   \<and> (class_getattr h c ''Event'' = None \<longrightarrow>
      name_inner_event h warns c
        = (h, warns @ [''Class '' @ cls_repr (h c) @ '' does not have a inner Event''], Inr c))"
proof (intro conjI impI)
  assume f: "class_getattr h c ''Event'' = Some (ClassRef r)"
  note eq = name_inner_event_found [OF f, of warns]
  show "name_inner_event h warns c
        = (h(r := (h r)\<lparr>cls_dict :=
              (cls_dict (h r))(''_event_name'' \<mapsto> StrVal (cls_name (h c) @ ''.Event''))\<rparr>),
           warns, Inr c)" by (rule eq)
  show "cls_dict (fst (name_inner_event h warns c) r) ''_event_name''
        = Some (StrVal (cls_name (h c) @ ''.Event''))"
    by (simp add: eq)
  show "\<forall>r' a. r' \<noteq> r \<or> a \<noteq> ''_event_name'' \<longrightarrow>
          cls_dict (fst (name_inner_event h warns c) r') a = cls_dict (h r') a"
    by (simp add: eq)
  show "\<forall>r'. cls_name (fst (name_inner_event h warns c) r') = cls_name (h r')
          \<and> cls_repr (fst (name_inner_event h warns c) r') = cls_repr (h r')
          \<and> cls_bases (fst (name_inner_event h warns c) r') = cls_bases (h r')"
    by (simp add: eq)
  have "''Event'' \<noteq> ''_event_name''" by simp
  from class_getattr_update_other [OF this] f
  show "class_getattr (fst (name_inner_event h warns c)) c ''Event'' = Some (ClassRef r)"
    by (simp add: eq)
next
  assume "class_getattr h c ''Event'' = None"
  then show "name_inner_event h warns c
        = (h, warns @ [''Class '' @ cls_repr (h c) @ '' does not have a inner Event''], Inr c)"
    by (rule name_inner_event_missing)
qed

text \<open>
  \<open>NewMessage\<close> has the inner class and gets it renamed; \<open>Raw\<close> has none and gets the
  warning.
\<close>

theorem name_inner_event_witness:
  "cls_dict (fst (name_inner_event sample_classes [] 0) 1) ''_event_name''
      = Some (StrVal ''NewMessage.Event'')
   \<and> snd (name_inner_event sample_classes [] 0) = ([], Inr 0)
   \<and> name_inner_event sample_classes [] 3
      = (sample_classes, [''Class <class Raw> does not have a inner Event''], Inr 3)"
proof -
  have 1: "class_getattr sample_classes 0 ''Event'' = Some (ClassRef 1)"
    by (simp add: class_getattr_def sample_classes_def)
  have 2: "class_getattr sample_classes 3 ''Event'' = None"
    by (simp add: class_getattr_def sample_classes_def)
  have 3: "cls_name (sample_classes 0) = ''NewMessage''"
    and 4: "cls_repr (sample_classes 3) = ''<class Raw>''"
    by (simp_all add: sample_classes_def)
  from name_inner_event_renames_or_warns [of sample_classes 0 1 "[]"] 1
  have a: "name_inner_event sample_classes [] 0
        = (sample_classes(1 := (sample_classes 1)\<lparr>cls_dict :=
              (cls_dict (sample_classes 1))(''_event_name'' \<mapsto>
                 StrVal (cls_name (sample_classes 0) @ ''.Event''))\<rparr>), [], Inr 0)"
    and b: "cls_dict (fst (name_inner_event sample_classes [] 0) 1) ''_event_name''
        = Some (StrVal (cls_name (sample_classes 0) @ ''.Event''))"
    by blast+
  from name_inner_event_renames_or_warns [of sample_classes 3 1 "[]"] 2
  have c: "name_inner_event sample_classes [] 3
        = (sample_classes, [] @ [''Class '' @ cls_repr (sample_classes 3)
             @ '' does not have a inner Event''], Inr 3)"
    by blast
  have a': "snd (name_inner_event sample_classes [] 0) = ([], Inr 0)"
    by (simp only: a snd_conv)
  have b': "cls_dict (fst (name_inner_event sample_classes [] 0) 1) ''_event_name''
      = Some (StrVal ''NewMessage.Event'')"
    by (simp only: b 3) simp
  have c': "name_inner_event sample_classes [] 3
      = (sample_classes, [''Class <class Raw> does not have a inner Event''], Inr 3)"
    by (simp only: c 4) simp
  from b' a' c' show ?thesis by (intro conjI)
qed

end
